theory Spec2Isabelle
  imports Main "HOL-Library.Multiset"
begin

section \<open>HTTP vocabulary shared by the handlers\<close>

text \<open>
  The backend exists in three successive variants. The original one (first program of
  \<^verbatim>\<open>backend/main.go\<close>) has no sessions; the second one (second program of
  \<^verbatim>\<open>backend/main.go\<close>) adds sessions, subjects and the e-mail existence check; the
  newest one (the Go program stored behind the two React pages in
  \<^verbatim>\<open>frontend/src/App.jsx\<close>) adds error handling, the CORS middleware and the
  partitioning subject delete. Definitions of the newest variant keep the source's
  names; those of the older variants carry the suffix \<open>_v1\<close> or \<open>_v2\<close>.
\<close>

datatype http_method = MethodGet | MethodPost | MethodPut | MethodDelete | MethodOptions | MethodOther

type_synonym bytes = "nat list"

record upload =
  filename :: string
  content_type :: string
  content :: bytes

text \<open>
  What a handler reads from \<^verbatim>\<open>*http.Request\<close>: the method, \<^verbatim>\<open>r.URL.Path\<close>, the
  result of \<^verbatim>\<open>store.Get(r, "auth")\<close> (the error, and \<^verbatim>\<open>session.Values["role"].(string)\<close>,
  \<open>None\<close> when the type assertion fails), the result of \<^verbatim>\<open>ParseMultipartForm\<close>, the
  maps \<^verbatim>\<open>r.Form\<close> and the uploaded files by field, and the decoded JSON payload
  \<^verbatim>\<open>{"ids": [...]}\<close> (\<open>None\<close> when decoding fails).
\<close>

record request =
  Method :: http_method
  URL_Path :: string
  session_err :: bool
  session_role :: "string option"
  form_err :: bool
  form :: "string \<rightharpoonup> string list"
  form_files :: "string \<rightharpoonup> upload"
  body_ids :: "int list option"

text \<open>A row of \<^verbatim>\<open>ApplicationResponse\<close> as the listing encodes it.\<close>

record ApplicationResponse =
  ID :: int
  FullName :: string
  Email :: string
  Gender :: string
  Phone :: string
  University :: string
  FieldOfStudy :: string
  DegreeLevel :: string
  ApplicationType :: string
  InternshipDuration :: string
  PreferredWorkingMethod :: string
  StartDate :: "int option"
  CreatedAt :: int
  CVFilePath :: string
  MotivationFilePath :: string
  Subjects :: "string list"

text \<open>The errors \<^verbatim>\<open>savePDF\<close> can return.\<close>

datatype save_error = FormFile_error | Not_PDF string | MkdirAll_error | Create_error | Copy_error

text \<open>
  Response bodies: the text of \<^verbatim>\<open>http.Error\<close>, the JSON objects the handlers encode,
  file bytes, the text of a library or database error that a handler of the older
  variants passes on (\<^verbatim>\<open>err.Error()\<close>), or nothing. \<^verbatim>\<open>mapKeys\<close> ranges over a Go
  map, whose iteration order is not fixed, so the \<^verbatim>\<open>in_use\<close> array is kept as the
  set of its elements.
\<close>

datatype body =
  Empty
  | Text string
  | Json_id int
  | Json_deleted "int list" "int set"
  | Json_success
  | Json_applications "ApplicationResponse list"
  | File_bytes bytes
  | Error_of_parse
  | Error_of_save save_error
  | Error_of_insert
  | Aborted

record response =
  status :: nat
  body :: body

definition respondError :: "string \<Rightarrow> nat \<Rightarrow> response" where
  "respondError message code = \<lparr>status = code, body = Text message\<rparr>"

definition respondJSON :: "body \<Rightarrow> nat \<Rightarrow> response" where
  "respondJSON data code = \<lparr>status = code, body = data\<rparr>"

section \<open>Auth gate\<close>

text \<open>
  A handler maps the request and the persistent state to a response and the new state.
  A gate that answers by itself returns the state it was given, whatever the wrapped
  handler is: the wrapped handler did not run.
\<close>

definition corsMiddleware ::
  "(request \<Rightarrow> 's \<Rightarrow> response \<times> 's) \<Rightarrow> request \<Rightarrow> 's \<Rightarrow> response \<times> 's" where
  "corsMiddleware next r s =
     (if Method r = MethodOptions then (\<lparr>status = 200, body = Empty\<rparr>, s)
      else next r s)"

definition authRequired ::
  "string \<Rightarrow> (request \<Rightarrow> 's \<Rightarrow> response \<times> 's) \<Rightarrow> request \<Rightarrow> 's \<Rightarrow> response \<times> 's" where
  "authRequired role next =
     corsMiddleware (\<lambda>r s.
       if session_err r then (respondError ''Session error'' 500, s)
       else case session_role r of
         None \<Rightarrow> (respondError ''Unauthorized'' 401, s)
       | Some userRole \<Rightarrow>
           if role \<noteq> '''' \<and> userRole \<noteq> role then (respondError ''Forbidden'' 403, s)
           else next r s)"

text \<open>The second variant ignores the error of \<^verbatim>\<open>store.Get\<close> and has no middleware.\<close>

definition authRequired_v2 ::
  "string \<Rightarrow> (request \<Rightarrow> 's \<Rightarrow> response \<times> 's) \<Rightarrow> request \<Rightarrow> 's \<Rightarrow> response \<times> 's" where
  "authRequired_v2 role next r s =
     (case session_role r of
        None \<Rightarrow> (respondError ''Unauthorized'' 401, s)
      | Some userRole \<Rightarrow>
          if role \<noteq> '''' \<and> userRole \<noteq> role then (respondError ''Forbidden'' 403, s)
          else next r s)"

section \<open>Persistent state\<close>

text \<open>
  A row of table \<^verbatim>\<open>applications\<close>. Times are Unix seconds; \<open>start_date\<close> is the
  nullable column that receives \<^verbatim>\<open>sql.NullTime\<close> (\<open>None\<close> when \<^verbatim>\<open>Valid\<close> is false).
  The columns \<^verbatim>\<open>id\<close> and \<^verbatim>\<open>created_at\<close> are assigned by the database.
\<close>

type_synonym time = int

record application =
  app_id :: int
  full_name :: string
  email :: string
  gender :: string
  phone :: string
  university :: string
  field_of_study :: string
  degree_level :: string
  application_type :: string
  internship_duration :: string
  preferred_working_method :: string
  start_date :: "time option"
  created_at :: time
  cv_file_path :: string
  motivation_file_path :: string

text \<open>
  The tables and the upload directory. A row of \<^verbatim>\<open>application_subjects\<close> pairs an
  application id with a subject id (type \<open>int\<close>) in the second and the newest variant, and
  with the submitted subject name (type \<open>string\<close>) in the original one.
\<close>

record 'j state =
  applications :: "application list"
  subjects :: "(int \<times> string) list"
  application_subjects :: "(int \<times> 'j) list"
  files :: "string \<rightharpoonup> bytes"

section \<open>Environment of one intake request\<close>

text \<open>
  What the handler receives from the library, the clock, the file system and the
  database besides the request: the parser \<^verbatim>\<open>time.Parse("2006-01-02", v)\<close>, the clock
  read in \<^verbatim>\<open>savePDF\<close> for each field, the failure (if any) of the file operations for
  each field, the failure of the existence query and of the insert, the id and the
  creation time the database assigns, and the failure of the \<open>i\<close>-th subject lookup and
  of the \<open>i\<close>-th insert into the join table.
\<close>

datatype save_fault = MkdirAll_fails | Create_fails | Copy_fails nat

record apply_env =
  time_Parse :: "string \<Rightarrow> time option"
  UnixNano :: "string \<Rightarrow> nat"
  save_fault :: "string \<rightharpoonup> save_fault"
  exists_err :: bool
  insert_err :: bool
  new_id :: int
  insert_time :: time
  lookup_err :: "nat \<Rightarrow> bool"
  join_err :: "nat \<Rightarrow> bool"

section \<open>Application intake\<close>

definition FormValue :: "request \<Rightarrow> string \<Rightarrow> string" where
  "FormValue r key = (case form r key of None \<Rightarrow> '''' | Some [] \<Rightarrow> '''' | Some (v # vs) \<Rightarrow> v)"

definition Form :: "request \<Rightarrow> string \<Rightarrow> string list" where
  "Form r key = (case form r key of None \<Rightarrow> [] | Some vs \<Rightarrow> vs)"

text \<open>\<^verbatim>\<open>%d\<close> of \<^verbatim>\<open>fmt.Sprintf\<close> on a number that is not negative.\<close>

fun decimal :: "nat \<Rightarrow> string" where
  "decimal n =
     (if n < 10 then [''0123456789'' ! n]
      else decimal (n div 10) @ [''0123456789'' ! (n mod 10)])"

definition upload_path :: "nat \<Rightarrow> string \<Rightarrow> string" where
  "upload_path nano name = ''uploads/'' @ decimal nano @ ''_'' @ name"

text \<open>
  \<^verbatim>\<open>savePDF\<close> of the newest variant: the path, or the error, and the upload directory
  after the call. A failed \<^verbatim>\<open>io.Copy\<close> leaves the bytes written so far.
\<close>

definition savePDF ::
  "apply_env \<Rightarrow> request \<Rightarrow> string \<Rightarrow> (string \<rightharpoonup> bytes) \<Rightarrow> (save_error + string) \<times> (string \<rightharpoonup> bytes)" where
  "savePDF e r field fs =
     (case form_files r field of
        None \<Rightarrow> (Inl FormFile_error, fs)
      | Some header \<Rightarrow>
          let path = upload_path (UnixNano e field) (filename header) in
          (case save_fault e field of
             Some MkdirAll_fails \<Rightarrow> (Inl MkdirAll_error, fs)
           | Some Create_fails \<Rightarrow> (Inl Create_error, fs)
           | Some (Copy_fails n) \<Rightarrow> (Inl Copy_error, fs(path \<mapsto> take n (content header)))
           | None \<Rightarrow> (Inr path, fs(path \<mapsto> content header))))"

text \<open>
  The original variant: a missing file is \<^verbatim>\<open>("", nil)\<close>, the content type is checked,
  the result of \<^verbatim>\<open>os.MkdirAll\<close> is dropped.
\<close>

definition savePDF_v1 ::
  "apply_env \<Rightarrow> request \<Rightarrow> string \<Rightarrow> (string \<rightharpoonup> bytes) \<Rightarrow> (save_error + string) \<times> (string \<rightharpoonup> bytes)" where
  "savePDF_v1 e r field fs =
     (case form_files r field of
        None \<Rightarrow> (Inr '''', fs)
      | Some header \<Rightarrow>
          if content_type header \<noteq> ''application/pdf'' then (Inl (Not_PDF field), fs)
          else
            let path = upload_path (UnixNano e field) (filename header) in
            (case save_fault e field of
               Some Create_fails \<Rightarrow> (Inl Create_error, fs)
             | Some (Copy_fails n) \<Rightarrow> (Inl Copy_error, fs(path \<mapsto> take n (content header)))
             | _ \<Rightarrow> (Inr path, fs(path \<mapsto> content header))))"

text \<open>
  The second variant: every error after \<^verbatim>\<open>r.FormFile\<close> is dropped, so the path is
  returned even when the file could not be created or was written in part.
\<close>

definition savePDF_v2 ::
  "apply_env \<Rightarrow> request \<Rightarrow> string \<Rightarrow> (string \<rightharpoonup> bytes) \<Rightarrow> (save_error + string) \<times> (string \<rightharpoonup> bytes)" where
  "savePDF_v2 e r field fs =
     (case form_files r field of
        None \<Rightarrow> (Inl FormFile_error, fs)
      | Some header \<Rightarrow>
          let path = upload_path (UnixNano e field) (filename header) in
          (case save_fault e field of
             Some Create_fails \<Rightarrow> (Inr path, fs)
           | Some (Copy_fails n) \<Rightarrow> (Inr path, fs(path \<mapsto> take n (content header)))
           | _ \<Rightarrow> (Inr path, fs(path \<mapsto> content header))))"

definition path_of :: "save_error + string \<Rightarrow> string" where
  "path_of res = (case res of Inl err \<Rightarrow> '''' | Inr path \<Rightarrow> path)"

definition email_exists :: "'j state \<Rightarrow> string \<Rightarrow> bool" where
  "email_exists s e = (e \<in> set (map email (applications s)))"

text \<open>\<^verbatim>\<open>SELECT id FROM subjects WHERE name=$1\<close>, scanned by \<^verbatim>\<open>QueryRow\<close>: the first row.\<close>

definition subject_id_by_name :: "(int \<times> string) list \<Rightarrow> string \<Rightarrow> int option" where
  "subject_id_by_name subs name = map_option fst (find (\<lambda>row. snd row = name) subs)"

text \<open>The row the \<^verbatim>\<open>INSERT INTO applications\<close> statement adds.\<close>

definition new_row ::
  "apply_env \<Rightarrow> request \<Rightarrow> time option \<Rightarrow> string \<Rightarrow> string \<Rightarrow> application" where
  "new_row e r startDate cvPath motivationPath =
     \<lparr>app_id = new_id e,
      full_name = FormValue r ''full_name'',
      email = FormValue r ''email'',
      gender = FormValue r ''gender'',
      phone = FormValue r ''phone'',
      university = FormValue r ''university'',
      field_of_study = FormValue r ''field_of_study'',
      degree_level = FormValue r ''degree_level'',
      application_type = FormValue r ''application_type'',
      internship_duration = FormValue r ''internship_duration'',
      preferred_working_method = FormValue r ''preferred_working_method'',
      start_date = startDate,
      created_at = insert_time e,
      cv_file_path = cvPath,
      motivation_file_path = motivationPath\<rparr>"

text \<open>
  The loop over \<^verbatim>\<open>r.Form["subjects"]\<close> of the second and the newest variant: a name
  whose lookup gives no row (or fails) is skipped, the error of the insert is dropped.
\<close>

fun link_subjects :: "apply_env \<Rightarrow> int \<Rightarrow> nat \<Rightarrow> string list \<Rightarrow> int state \<Rightarrow> int state" where
  "link_subjects e appID i [] s = s"
| "link_subjects e appID i (subjectName # rest) s =
     (case (if lookup_err e i then None else subject_id_by_name (subjects s) subjectName) of
        None \<Rightarrow> link_subjects e appID (Suc i) rest s
      | Some subjectID \<Rightarrow>
          link_subjects e appID (Suc i) rest
            (if join_err e i then s
             else s\<lparr>application_subjects := application_subjects s @ [(appID, subjectID)]\<rparr>))"

text \<open>The loop of the original variant stores the submitted names themselves.\<close>

fun link_subjects_v1 :: "apply_env \<Rightarrow> int \<Rightarrow> nat \<Rightarrow> string list \<Rightarrow> string state \<Rightarrow> string state" where
  "link_subjects_v1 e applicationID i [] s = s"
| "link_subjects_v1 e applicationID i (subject # rest) s =
     link_subjects_v1 e applicationID (Suc i) rest
       (if join_err e i then s
        else s\<lparr>application_subjects := application_subjects s @ [(applicationID, subject)]\<rparr>)"

definition start_date_of :: "apply_env \<Rightarrow> request \<Rightarrow> time option" where
  "start_date_of e r =
     (let v = FormValue r ''early_start_date'' in if v \<noteq> '''' then time_Parse e v else None)"

definition applyHandler :: "apply_env \<Rightarrow> request \<Rightarrow> int state \<Rightarrow> response \<times> int state" where
  "applyHandler e r s =
     (if Method r \<noteq> MethodPost then (respondError ''Method not allowed'' 405, s)
      else if form_err r then (respondError ''Failed to parse form'' 400, s)
      else if FormValue r ''email'' = '''' then (respondError ''Email is required'' 400, s)
      else if exists_err e then (respondError ''Database error'' 500, s)
      else if email_exists s (FormValue r ''email'') then (respondError ''Email already used'' 409, s)
      else
        (case savePDF e r ''cv'' (files s) of
           (Inl err, fs1) \<Rightarrow> (respondError ''Failed to save CV'' 500, s\<lparr>files := fs1\<rparr>)
         | (Inr cvPath, fs1) \<Rightarrow>
             (case savePDF e r ''motivation'' fs1 of
                (m, fs2) \<Rightarrow>
                  if insert_err e
                  then (respondError ''Failed to create application'' 500, s\<lparr>files := fs2\<rparr>)
                  else
                    (respondJSON (Json_id (new_id e)) 201,
                     link_subjects e (new_id e) 0 (Form r ''subjects'')
                       (s\<lparr>files := fs2,
                          applications := applications s
                            @ [new_row e r (start_date_of e r) cvPath (path_of m)]\<rparr>)))))"

text \<open>
  The zero value of \<^verbatim>\<open>time.Time\<close> (1 January of year 1, UTC) in Unix seconds: the
  second variant stores it, marked valid, when the date does not parse.
\<close>

definition zero_time :: time where
  "zero_time = - 62135596800"

definition start_date_of_v2 :: "apply_env \<Rightarrow> request \<Rightarrow> time option" where
  "start_date_of_v2 e r =
     (let v = FormValue r ''early_start_date'' in
      if v \<noteq> '''' then Some (case time_Parse e v of None \<Rightarrow> zero_time | Some t \<Rightarrow> t) else None)"

definition applyHandler_v2 :: "apply_env \<Rightarrow> request \<Rightarrow> int state \<Rightarrow> response \<times> int state" where
  "applyHandler_v2 e r s =
     (if Method r \<noteq> MethodPost then (respondError ''Method not allowed'' 405, s)
      else if \<not> exists_err e \<and> email_exists s (FormValue r ''email'')
      then (respondError ''Email already used'' 409, s)
      else
        (case savePDF_v2 e r ''cv'' (files s) of
           (c, fs1) \<Rightarrow>
             (case savePDF_v2 e r ''motivation'' fs1 of
                (m, fs2) \<Rightarrow>
                  if insert_err e
                  then (\<lparr>status = 500, body = Error_of_insert\<rparr>, s\<lparr>files := fs2\<rparr>)
                  else
                    (respondJSON (Json_id (new_id e)) 200,
                     link_subjects e (new_id e) 0 (Form r ''subjects'')
                       (s\<lparr>files := fs2,
                          applications := applications s
                            @ [new_row e r (start_date_of_v2 e r) (path_of c) (path_of m)]\<rparr>)))))"

definition applyHandler_v1 :: "apply_env \<Rightarrow> request \<Rightarrow> string state \<Rightarrow> response \<times> string state" where
  "applyHandler_v1 e r s =
     (if Method r = MethodOptions then (\<lparr>status = 200, body = Empty\<rparr>, s)
      else if Method r \<noteq> MethodPost then (respondError ''Method not allowed'' 405, s)
      else if form_err r then (\<lparr>status = 400, body = Error_of_parse\<rparr>, s)
      else if length (Form r ''subjects'') = 0
      then (respondError ''At least one subject is required'' 400, s)
      else
        (case savePDF_v1 e r ''cv'' (files s) of
           (Inl err, fs1) \<Rightarrow> (\<lparr>status = 400, body = Error_of_save err\<rparr>, s\<lparr>files := fs1\<rparr>)
         | (Inr cvPath, fs1) \<Rightarrow>
             (case savePDF_v1 e r ''motivation'' fs1 of
                (m, fs2) \<Rightarrow>
                  if insert_err e
                  then (\<lparr>status = 500, body = Error_of_insert\<rparr>, s\<lparr>files := fs2\<rparr>)
                  else
                    (respondJSON (Json_id (new_id e)) 201,
                     link_subjects_v1 e (new_id e) 0 (Form r ''subjects'')
                       (s\<lparr>files := fs2,
                          applications := applications s
                            @ [new_row e r (start_date_of e r) cvPath (path_of m)]\<rparr>)))))"

section \<open>Application query\<close>

record list_env =
  list_query_err :: bool
  sub_query_err :: "int \<Rightarrow> bool"

text \<open>
  The nested query: the names of the subjects joined to one application. SQL fixes no
  order of the rows, so the theorems speak of the set of names only.
\<close>

definition subject_names :: "int state \<Rightarrow> int \<Rightarrow> string list" where
  "subject_names s aid =
     [snd sub. sub \<leftarrow> subjects s, j \<leftarrow> application_subjects s, snd j = fst sub \<and> fst j = aid]"

definition to_response :: "application \<Rightarrow> string list \<Rightarrow> ApplicationResponse" where
  "to_response a names =
     \<lparr>ID = app_id a, FullName = full_name a, Email = email a, Gender = gender a,
      Phone = phone a, University = university a, FieldOfStudy = field_of_study a,
      DegreeLevel = degree_level a, ApplicationType = application_type a,
      InternshipDuration = internship_duration a,
      PreferredWorkingMethod = preferred_working_method a,
      StartDate = start_date a, CreatedAt = created_at a, CVFilePath = cv_file_path a,
      MotivationFilePath = motivation_file_path a, Subjects = names\<rparr>"

text \<open>\<^verbatim>\<open>ORDER BY created_at DESC\<close>; rows of equal time stay in table order.\<close>

definition order_by_created_at_desc :: "application list \<Rightarrow> application list" where
  "order_by_created_at_desc apps = sort_key (\<lambda>a. - created_at a) apps"

definition listApplications :: "list_env \<Rightarrow> request \<Rightarrow> int state \<Rightarrow> response \<times> int state" where
  "listApplications e r s =
     (if list_query_err e then (respondError ''Database error'' 500, s)
      else
        (respondJSON
           (Json_applications
              (map (\<lambda>a. to_response a
                      (if sub_query_err e (app_id a) then [] else subject_names s (app_id a)))
                 (order_by_created_at_desc (applications s))))
           200, s))"

section \<open>Subject registry: batch delete\<close>

record delete_env =
  usage_query_err :: bool
  begin_err :: bool
  exec_err :: bool
  commit_err :: bool
  delete_joins_err :: bool

text \<open>\<^verbatim>\<open>SELECT DISTINCT subject_id FROM application_subjects WHERE subject_id = ANY($1)\<close>\<close>

definition subjects_in_use :: "int state \<Rightarrow> int list \<Rightarrow> int list" where
  "subjects_in_use s ids = remdups (filter (\<lambda>i. i \<in> set ids) (map snd (application_subjects s)))"

definition mapKeys :: "int list \<Rightarrow> int set" where
  "mapKeys inUse = set inUse"

definition deleteSubjects :: "delete_env \<Rightarrow> request \<Rightarrow> int state \<Rightarrow> response \<times> int state" where
  "deleteSubjects e r s =
     (if Method r \<noteq> MethodDelete then (respondError ''Method not allowed'' 405, s)
      else case body_ids r of
        None \<Rightarrow> (respondError ''Invalid JSON'' 400, s)
      | Some ids \<Rightarrow>
          if length ids = 0 then (respondError ''No subjects selected'' 400, s)
          else if usage_query_err e then (respondError ''Database error'' 500, s)
          else
            let inUse = subjects_in_use s ids;
                deletable = filter (\<lambda>i. i \<notin> set inUse) ids
            in if begin_err e then (respondError ''Database error'' 500, s)
               else if length deletable > 0 \<and> exec_err e
               then (respondError ''Database error'' 500, s)
               else if commit_err e then (respondError ''Database error'' 500, s)
               else
                 (respondJSON (Json_deleted deletable (mapKeys inUse)) 200,
                  s\<lparr>subjects := filter (\<lambda>sub. fst sub \<notin> set deletable) (subjects s)\<rparr>))"

text \<open>
  The second variant deletes the join rows and then the subjects, whether referenced or
  not, and drops every error.
\<close>

definition deleteSubjects_v2 :: "delete_env \<Rightarrow> request \<Rightarrow> int state \<Rightarrow> response \<times> int state" where
  "deleteSubjects_v2 e r s =
     (if Method r = MethodOptions then (\<lparr>status = 200, body = Empty\<rparr>, s)
      else if Method r \<noteq> MethodDelete then (respondError ''Method not allowed'' 405, s)
      else
        let ids = (case body_ids r of None \<Rightarrow> [] | Some ids \<Rightarrow> ids) in
        if length ids = 0 then (respondError ''No subjects selected'' 400, s)
        else
          (\<lparr>status = 200, body = Json_success\<rparr>,
           s\<lparr>application_subjects :=
                (if delete_joins_err e then application_subjects s
                 else filter (\<lambda>j. snd j \<notin> set ids) (application_subjects s)),
              subjects :=
                (if exec_err e then subjects s
                 else filter (\<lambda>sub. fst sub \<notin> set ids) (subjects s))\<rparr>))"

definition referenced :: "int state \<Rightarrow> int \<Rightarrow> bool" where
  "referenced s i = (i \<in> set (map snd (application_subjects s)))"

section \<open>File delivery\<close>

text \<open>
  \<^verbatim>\<open>http.ServeFile\<close> belongs to the standard library, not to the repository. It is
  modelled as far as the handler relies on it: it answers 400 when an element of the URL
  path (split at slashes and backslashes) is \<^verbatim>\<open>..\<close>, and otherwise serves the regular
  file of the given name, or answers 404. Directories, redirects and range requests are
  left out.
\<close>

fun split_on :: "(char \<Rightarrow> bool) \<Rightarrow> string \<Rightarrow> string list" where
  "split_on f [] = [[]]"
| "split_on f (c # cs) =
     (if f c then [] # split_on f cs
      else case split_on f cs of [] \<Rightarrow> [[c]] | x # xs \<Rightarrow> (c # x) # xs)"

definition FieldsFunc :: "(char \<Rightarrow> bool) \<Rightarrow> string \<Rightarrow> string list" where
  "FieldsFunc f v = filter (\<lambda>x. x \<noteq> []) (split_on f v)"

definition isSlashRune :: "char \<Rightarrow> bool" where
  "isSlashRune c = (c = CHR ''/'' \<or> c = CHR 0x5C)"

definition containsDotDot :: "string \<Rightarrow> bool" where
  "containsDotDot v = (''..'' \<in> set (FieldsFunc isSlashRune v))"

definition ServeFile :: "(string \<rightharpoonup> bytes) \<Rightarrow> string \<Rightarrow> string \<Rightarrow> response" where
  "ServeFile fs urlPath name =
     (if containsDotDot urlPath then respondError ''invalid URL path'' 400
      else case fs name of
        None \<Rightarrow> respondError ''404 page not found'' 404
      | Some b \<Rightarrow> \<lparr>status = 200, body = File_bytes b\<rparr>)"

text \<open>
  \<^verbatim>\<open>r.URL.Path[1:]\<close> panics on the empty path; the server then drops the connection
  without a response.
\<close>

definition aborted :: response where
  "aborted = \<lparr>status = 0, body = Aborted\<rparr>"

definition serveFile :: "request \<Rightarrow> 'j state \<Rightarrow> response \<times> 'j state" where
  "serveFile r s =
     (if Method r \<noteq> MethodGet then (respondError ''Method not allowed'' 405, s)
      else if URL_Path r = [] then (aborted, s)
      else
        let filePath = drop 1 (URL_Path r) in
        if filePath = '''' \<or> hd filePath = CHR ''.''
        then (respondError ''Invalid file path'' 400, s)
        else (ServeFile (files s) (URL_Path r) filePath, s))"

definition serveFile_v2 :: "request \<Rightarrow> 'j state \<Rightarrow> response \<times> 'j state" where
  "serveFile_v2 r s =
     (if Method r = MethodOptions then (\<lparr>status = 200, body = Empty\<rparr>, s)
      else if URL_Path r = [] then (aborted, s)
      else (ServeFile (files s) (URL_Path r) (drop 1 (URL_Path r)), s))"

text \<open>
  Where a relative path leads from the server's working directory: empty elements and
  \<^verbatim>\<open>.\<close> are skipped, \<^verbatim>\<open>..\<close> drops the last directory entered (\<open>None\<close> when it
  leaves the working directory). A path resolves outside the upload root unless the
  first directory of the result is \<^verbatim>\<open>uploads\<close>.
\<close>

fun resolve :: "string list \<Rightarrow> string list \<Rightarrow> string list option" where
  "resolve stack [] = Some (rev stack)"
| "resolve stack (c # cs) =
     (if c = '''' \<or> c = ''.'' then resolve stack cs
      else if c = ''..'' then (case stack of [] \<Rightarrow> None | d # st \<Rightarrow> resolve st cs)
      else resolve (c # stack) cs)"

definition outside_upload_root :: "string \<Rightarrow> bool" where
  "outside_upload_root name =
     (case resolve [] (split_on (\<lambda>c. c = CHR ''/'') name) of
        Some (d # rest) \<Rightarrow> d \<noteq> ''uploads''
      | _ \<Rightarrow> True)"

text \<open>The route of \<^verbatim>\<open>main\<close>: pattern \<^verbatim>\<open>/uploads/\<close> takes the paths with that prefix.\<close>

definition under_uploads_route :: "request \<Rightarrow> bool" where
  "under_uploads_route r = (take 9 (URL_Path r) = ''/uploads/'')"

section \<open>Client-side validation of the form\<close>

text \<open>
  What \<^verbatim>\<open>validateForm\<close> of the application page reads: \<^verbatim>\<open>formData.get\<close> of the phone
  and the e-mail (\<open>None\<close> for \<^verbatim>\<open>null\<close>), \<^verbatim>\<open>formData.getAll("subjects")\<close>, the type of
  the first file of each file input (\<open>None\<close> when no file is chosen), and the answer of
  \<^verbatim>\<open>/email-exists\<close> (\<open>None\<close> when the fetch fails). The page alerts and returns false,
  after which \<^verbatim>\<open>handleSubmit\<close> sends nothing; the alert is the result here.
\<close>

record form_data =
  fd_phone :: "string option"
  fd_email :: "string option"
  fd_subjects :: "string list"
  cv_type :: "string option"
  motivation_type :: "string option"
  exists_reply :: "bool option"

datatype alert =
  Phone_alert | Email_alert | Fetch_failed | Email_used_alert | Subject_alert | CV_alert
  | Motivation_alert

definition is_digit :: "char \<Rightarrow> bool" where
  "is_digit c = (c \<in> set ''0123456789'')"

definition phoneDigits :: "string \<Rightarrow> string" where
  "phoneDigits str = filter is_digit str"

definition indexOf :: "string \<Rightarrow> char \<Rightarrow> nat" where
  "indexOf str c = length (takeWhile (\<lambda>x. x \<noteq> c) str)"

definition lastIndexOf :: "string \<Rightarrow> char \<Rightarrow> nat" where
  "lastIndexOf str c = length str - 1 - length (takeWhile (\<lambda>x. x \<noteq> c) (rev str))"

definition or_empty :: "string option \<Rightarrow> string" where
  "or_empty v = (case v of None \<Rightarrow> '''' | Some x \<Rightarrow> x)"

definition validateForm :: "form_data \<Rightarrow> alert option" where
  "validateForm fd =
     (let phoneValue = or_empty (fd_phone fd); emailValue = or_empty (fd_email fd) in
      if length (phoneDigits phoneValue) \<noteq> 8 then Some Phone_alert
      else if CHR ''@'' \<notin> set emailValue \<or> CHR ''.'' \<notin> set emailValue
              \<or> indexOf emailValue CHR ''@'' > lastIndexOf emailValue CHR ''.''
      then Some Email_alert
      else case exists_reply fd of
        None \<Rightarrow> Some Fetch_failed
      | Some True \<Rightarrow> Some Email_used_alert
      | Some False \<Rightarrow>
          if length (fd_subjects fd) = 0 then Some Subject_alert
          else if cv_type fd \<noteq> None \<and> cv_type fd \<noteq> Some ''application/pdf''
          then Some CV_alert
          else if motivation_type fd \<noteq> None \<and> motivation_type fd \<noteq> Some ''application/pdf''
          then Some Motivation_alert
          else None)"

section \<open>Concrete inputs\<close>

text \<open>Requests, environments and states on which the closed theorems run the handlers.\<close>

definition request0 :: request where
  "request0 = \<lparr>Method = MethodGet, URL_Path = ''/'', session_err = False,
     session_role = None, form_err = False, form = Map.empty, form_files = Map.empty,
     body_ids = None\<rparr>"

definition count_handler :: "request \<Rightarrow> nat \<Rightarrow> response \<times> nat" where
  "count_handler r n = (\<lparr>status = 200, body = Json_success\<rparr>, Suc n)"

definition env0 :: apply_env where
  "env0 = \<lparr>time_Parse = (\<lambda>v. if v = ''2025-02-03'' then Some 1738540800 else None),
     UnixNano = (\<lambda>field. if field = ''cv'' then 7 else 8),
     save_fault = Map.empty, exists_err = False, insert_err = False,
     new_id = 1, insert_time = 1700000000,
     lookup_err = (\<lambda>i. False), join_err = (\<lambda>i. False)\<rparr>"

definition cv_pdf :: upload where
  "cv_pdf = \<lparr>filename = ''cv.pdf'', content_type = ''application/pdf'', content = [37, 80, 68, 70]\<rparr>"

definition notes_txt :: upload where
  "notes_txt = \<lparr>filename = ''notes.txt'', content_type = ''text/plain'', content = [104, 105]\<rparr>"

definition apply_request :: request where
  "apply_request = request0\<lparr>Method := MethodPost, URL_Path := ''/apply'',
     form := [''full_name'' \<mapsto> [''Ada''], ''email'' \<mapsto> [''a@b.com''],
              ''phone'' \<mapsto> [''12-34-56-78''], ''subjects'' \<mapsto> [''Data Science'']],
     form_files := [''cv'' \<mapsto> cv_pdf]\<rparr>"

definition state0 :: "int state" where
  "state0 = \<lparr>applications = [], subjects = [(1, ''Data Science''), (2, ''Web'')],
     application_subjects = [], files = Map.empty\<rparr>"

definition state0_v1 :: "string state" where
  "state0_v1 = \<lparr>applications = [], subjects = [], application_subjects = [], files = Map.empty\<rparr>"

text \<open>The state after the intake of \<open>apply_request\<close>.\<close>

definition state1 :: "int state" where
  "state1 = \<lparr>applications = [new_row env0 apply_request None ''uploads/7_cv.pdf'' ''''],
     subjects = [(1, ''Data Science''), (2, ''Web'')],
     application_subjects = [(1, 1)],
     files = [''uploads/7_cv.pdf'' \<mapsto> [37, 80, 68, 70]]\<rparr>"

text \<open>
  The newest intake requires an e-mail, so no row it inserts has an empty one; the
  property names the tables that only this intake has filled.
\<close>

definition emails_nonempty :: "'j state \<Rightarrow> bool" where
  "emails_nonempty s = ('''' \<notin> set (map email (applications s)))"

definition inserted :: "'j state \<Rightarrow> 'j state \<Rightarrow> application list" where
  "inserted s s' = drop (length (applications s)) (applications s')"

definition applications_of :: "response \<Rightarrow> ApplicationResponse list" where
  "applications_of resp = (case body resp of Json_applications rows \<Rightarrow> rows | _ \<Rightarrow> [])"

definition soon_request :: request where
  "soon_request = apply_request\<lparr>form := (form apply_request)(''early_start_date'' \<mapsto> [''soon''])\<rparr>"

definition no_subject_request :: request where
  "no_subject_request = apply_request\<lparr>form := (form apply_request)(''subjects'' := None)\<rparr>"

definition short_phone_request :: request where
  "short_phone_request = apply_request\<lparr>form := (form apply_request)(''phone'' \<mapsto> [''123''])\<rparr>"

definition text_cv_request :: request where
  "text_cv_request = apply_request\<lparr>form_files := [''cv'' \<mapsto> notes_txt]\<rparr>"

definition text_motivation_request :: request where
  "text_motivation_request =
     apply_request\<lparr>form_files := [''cv'' \<mapsto> cv_pdf, ''motivation'' \<mapsto> notes_txt]\<rparr>"

definition no_cv_request :: request where
  "no_cv_request = apply_request\<lparr>form_files := Map.empty\<rparr>"

definition page_form :: form_data where
  "page_form = \<lparr>fd_phone = Some ''12-34-56-78'', fd_email = Some ''a@b.com'',
     fd_subjects = [''Data Science''], cv_type = Some ''application/pdf'',
     motivation_type = None, exists_reply = Some False\<rparr>"

definition delete_env0 :: delete_env where
  "delete_env0 = \<lparr>usage_query_err = False, begin_err = False, exec_err = False,
     commit_err = False, delete_joins_err = False\<rparr>"

definition delete_request :: request where
  "delete_request = request0\<lparr>Method := MethodDelete, URL_Path := ''/subjects/delete'',
     session_role := Some ''admin'', body_ids := Some [1, 2]\<rparr>"

definition unknown_subject_request :: request where
  "unknown_subject_request
     = apply_request\<lparr>form := (form apply_request)(''subjects'' \<mapsto> [''Robotics''])\<rparr>"

definition list_env0 :: list_env where
  "list_env0 = \<lparr>list_query_err = False, sub_query_err = (\<lambda>a. False)\<rparr>"

definition stored_file_request :: request where
  "stored_file_request = request0\<lparr>URL_Path := ''/uploads/7_cv.pdf''\<rparr>"

definition climbing_request :: request where
  "climbing_request = request0\<lparr>URL_Path := ''/uploads/../main.go''\<rparr>"

definition dotted_request :: request where
  "dotted_request = request0\<lparr>URL_Path := ''/../main.go''\<rparr>"

section \<open>Auth gate: theorems\<close>

lemma authRequired_v2_gate:
  "role \<noteq> '''' \<Longrightarrow>
   (session_role r = None \<longrightarrow> authRequired_v2 role next r s = (respondError ''Unauthorized'' 401, s)) \<and>
   (\<forall>u. session_role r = Some u \<and> u \<noteq> role \<longrightarrow>
        authRequired_v2 role next r s = (respondError ''Forbidden'' 403, s)) \<and>
   (session_role r = Some role \<longrightarrow> authRequired_v2 role next r s = next r s)"
  by (simp add: authRequired_v2_def)




section \<open>Intake: auxiliary facts\<close>

lemma link_subjects_applications [simp]:
  "applications (link_subjects e a i ns s) = applications s"
  by (induction ns arbitrary: i s) (auto split: option.splits)

lemma link_subjects_files [simp]: "files (link_subjects e a i ns s) = files s"
  by (induction ns arbitrary: i s) (auto split: option.splits)

lemma link_subjects_subjects [simp]: "subjects (link_subjects e a i ns s) = subjects s"
  by (induction ns arbitrary: i s) (auto split: option.splits)

lemma link_subjects_v1_applications [simp]:
  "applications (link_subjects_v1 e a i ns s) = applications s"
  by (induction ns arbitrary: i s) auto

lemma savePDF_form [simp]: "savePDF e (r\<lparr>form := f\<rparr>) field fs = savePDF e r field fs"
  by (simp add: savePDF_def)

lemma FormValue_other:
  "k \<noteq> k' \<Longrightarrow> FormValue (r\<lparr>form := (form r)(k' := x)\<rparr>) k = FormValue r k"
  by (simp add: FormValue_def)

lemma Form_other:
  "k \<noteq> k' \<Longrightarrow> Form (r\<lparr>form := (form r)(k' := x)\<rparr>) k = Form r k"
  by (simp add: Form_def)

lemma new_row_early:
  "new_row e (r\<lparr>form := (form r)(''early_start_date'' := x)\<rparr>) d c m = new_row e r d c m"
  by (simp add: new_row_def FormValue_other)

lemma start_date_unparsed:
  "time_Parse e (FormValue r ''early_start_date'') = None \<Longrightarrow> start_date_of e r = None"
  by (simp add: start_date_of_def Let_def)

lemma start_date_omitted:
  "start_date_of e (r\<lparr>form := (form r)(''early_start_date'' := None)\<rparr>) = None"
  by (simp add: start_date_of_def FormValue_def)

lemma applyHandler_emails_nonempty:
  "emails_nonempty s \<Longrightarrow> emails_nonempty (snd (applyHandler e r s))"
  by (auto simp: applyHandler_def emails_nonempty_def new_row_def split: prod.splits sum.splits)

lemma apply_request_values:
  "FormValue apply_request ''email'' = ''a@b.com''"
  "FormValue apply_request ''phone'' = ''12-34-56-78''"
  "FormValue apply_request ''early_start_date'' = ''''"
  "Form apply_request ''subjects'' = [''Data Science'']"
  "Method apply_request = MethodPost" "\<not> form_err apply_request"
  "form_files apply_request ''cv'' = Some cv_pdf"
  "form_files apply_request ''motivation'' = None"
  by (simp_all add: apply_request_def request0_def FormValue_def Form_def)

lemma env0_values:
  "UnixNano env0 ''cv'' = 7" "UnixNano env0 ''motivation'' = 8" "save_fault env0 field = None"
  "\<not> exists_err env0" "\<not> insert_err env0" "new_id env0 = 1" "insert_time env0 = 1700000000"
  "\<not> lookup_err env0 i" "\<not> join_err env0 i" "time_Parse env0 ''soon'' = None"
  by (simp_all add: env0_def)

lemma state0_values:
  "applications state0 = []" "subjects state0 = [(1, ''Data Science''), (2, ''Web'')]"
  "application_subjects state0 = []" "files state0 = Map.empty"
  by (simp_all add: state0_def)

lemma savePDF_present:
  "form_files r field = Some header \<Longrightarrow> save_fault e field = None \<Longrightarrow>
   savePDF e r field fs
     = (Inr (upload_path (UnixNano e field) (filename header)),
        fs(upload_path (UnixNano e field) (filename header) \<mapsto> content header))"
  by (simp add: savePDF_def Let_def)

lemma savePDF_missing:
  "form_files r field = None \<Longrightarrow> savePDF e r field fs = (Inl FormFile_error, fs)"
  by (simp add: savePDF_def)

lemma cv_pdf_path: "upload_path 7 (filename cv_pdf) = ''uploads/7_cv.pdf''"
  by (simp add: upload_path_def cv_pdf_def)

lemma state1_intake: "applyHandler env0 apply_request state0 = (respondJSON (Json_id 1) 201, state1)"
  by (simp add: applyHandler_def apply_request_values env0_values state0_values
      savePDF_present [where header = cv_pdf] savePDF_missing cv_pdf_path
      email_exists_def path_of_def start_date_of_def subject_id_by_name_def)
    (simp add: state0_def state1_def cv_pdf_def)

section \<open>Intake: theorems\<close>

text \<open>
  C2: for every apply submission (a POST whose form parses, with the existence query
  answered) whose e-mail is already present in table applications, the newest intake
  handler returns Conflict (409) and the persistent state is unchanged: no application
  row, no join row and no upload file is added.
\<close>

theorem applyHandler_duplicate_email:
  assumes "Method r = MethodPost" and "\<not> form_err r" and "\<not> exists_err e"
    and "emails_nonempty s" and "email_exists s (FormValue r ''email'')"
  shows "applyHandler e r s = (respondError ''Email already used'' 409, s)"
  using assms by (auto simp: applyHandler_def emails_nonempty_def email_exists_def)

theorem applyHandler_duplicate_email_witness:
  "email_exists state1 (FormValue apply_request ''email'') \<and>
   applyHandler env0 apply_request state1 = (respondError ''Email already used'' 409, state1)"
proof -
  have present: "email_exists state1 (FormValue apply_request ''email'')"
    by (simp add: email_exists_def state1_def new_row_def apply_request_values)
  have filled: "emails_nonempty state1"
    by (simp add: emails_nonempty_def state1_def new_row_def apply_request_values)
  have "\<not> exists_err env0" by (simp add: env0_def)
  with applyHandler_duplicate_email [of apply_request env0 state1] present filled
  show ?thesis by (simp add: apply_request_values)
qed

text \<open>The second variant answers a duplicate e-mail in the same way.\<close>

lemma applyHandler_v2_duplicate_email:
  assumes "Method r = MethodPost" and "\<not> exists_err e"
    and "email_exists s (FormValue r ''email'')"
  shows "applyHandler_v2 e r s = (respondError ''Email already used'' 409, s)"
  using assms by (simp add: applyHandler_v2_def)

text \<open>
  A start date that does not parse. The newest intake handler behaves exactly as on the
  same submission without the field: the response and the state are the same, and when
  the application is stored (201) its start_date is absent.
\<close>

lemma applyHandler_malformed_start_date:
  assumes "time_Parse e (FormValue r ''early_start_date'') = None"
  shows "applyHandler e r s
           = applyHandler e (r\<lparr>form := (form r)(''early_start_date'' := None)\<rparr>) s \<and>
         (status (fst (applyHandler e r s)) = 201 \<longrightarrow>
            map start_date (inserted s (snd (applyHandler e r s))) = [None])"
proof
  show "applyHandler e r s
          = applyHandler e (r\<lparr>form := (form r)(''early_start_date'' := None)\<rparr>) s"
    by (simp add: applyHandler_def start_date_unparsed [OF assms] start_date_omitted
        new_row_early FormValue_other Form_other split: prod.split sum.split)
  show "status (fst (applyHandler e r s)) = 201 \<longrightarrow>
          map start_date (inserted s (snd (applyHandler e r s))) = [None]"
    by (auto simp: applyHandler_def start_date_unparsed [OF assms] respondError_def
        new_row_def inserted_def split: if_splits prod.splits sum.splits)
qed

lemma applyHandler_malformed_start_date_example:
  "time_Parse env0 (FormValue soon_request ''early_start_date'') = None \<and>
   applyHandler env0 soon_request state0 = (respondJSON (Json_id 1) 201, state1) \<and>
   map start_date (inserted state0 state1) = [None]"
proof -
  have v: "FormValue soon_request ''early_start_date'' = ''soon''"
    by (simp add: soon_request_def FormValue_def)
  have u: "time_Parse env0 (FormValue soon_request ''early_start_date'') = None"
    by (simp add: v env0_values)
  have same: "soon_request\<lparr>form := (form soon_request)(''early_start_date'' := None)\<rparr> = apply_request"
    by (simp add: soon_request_def apply_request_def request0_def)
  have run: "applyHandler env0 soon_request state0 = (respondJSON (Json_id 1) 201, state1)"
    using applyHandler_malformed_start_date [OF u, of state0]
    by (simp add: same state1_intake)
  have "map start_date (inserted state0 state1) = [None]"
    using applyHandler_malformed_start_date [OF u, of state0]
    by (simp add: run respondJSON_def)
  with u run show ?thesis by simp
qed

text \<open>The original handler does the same.\<close>

lemma applyHandler_v1_malformed_start_date:
  assumes "time_Parse e (FormValue r ''early_start_date'') = None"
  shows "applyHandler_v1 e r s
           = applyHandler_v1 e (r\<lparr>form := (form r)(''early_start_date'' := None)\<rparr>) s"
  by (simp add: applyHandler_v1_def start_date_unparsed [OF assms] start_date_omitted
      new_row_early FormValue_other Form_other savePDF_v1_def split: prod.split sum.split)

text \<open>
  The second variant drops the error of the parser and marks the date valid: whenever
  it stores the application, the zero time is stored as start_date.
\<close>

lemma applyHandler_v2_malformed_start_date:
  assumes "FormValue r ''early_start_date'' \<noteq> ''''"
    and "time_Parse e (FormValue r ''early_start_date'') = None"
    and "status (fst (applyHandler_v2 e r s)) = 200"
  shows "map start_date (inserted s (snd (applyHandler_v2 e r s))) = [Some zero_time]"
  using assms
  by (auto simp: applyHandler_v2_def start_date_of_v2_def respondError_def new_row_def
      inserted_def split: if_splits prod.splits)

lemma savePDF_v2_present:
  "form_files r field = Some header \<Longrightarrow> save_fault e field = None \<Longrightarrow>
   savePDF_v2 e r field fs
     = (Inr (upload_path (UnixNano e field) (filename header)),
        fs(upload_path (UnixNano e field) (filename header) \<mapsto> content header))"
  by (simp add: savePDF_v2_def Let_def)

lemma savePDF_v2_missing:
  "form_files r field = None \<Longrightarrow> savePDF_v2 e r field fs = (Inl FormFile_error, fs)"
  by (simp add: savePDF_v2_def)

text \<open>
  C8 fails on the second variant of the intake handler: the submission whose
  early_start_date is \<^verbatim>\<open>soon\<close>, which does not parse, is accepted, and the stored
  application has the zero time as start_date, not an absent one.
\<close>

theorem applyHandler_v2_stores_zero_time:
  "FormValue soon_request ''early_start_date'' = ''soon'' \<and>
   time_Parse env0 ''soon'' = None \<and>
   status (fst (applyHandler_v2 env0 soon_request state0)) = 200 \<and>
   map start_date (applications (snd (applyHandler_v2 env0 soon_request state0)))
     = [Some zero_time]"
proof -
  have req: "Method soon_request = MethodPost"
    "FormValue soon_request ''email'' = ''a@b.com''"
    "FormValue soon_request ''early_start_date'' = ''soon''"
    "form_files soon_request ''cv'' = Some cv_pdf"
    "form_files soon_request ''motivation'' = None"
    by (simp_all add: soon_request_def apply_request_def request0_def FormValue_def)
  show ?thesis
    by (simp add: applyHandler_v2_def req env0_values state0_values email_exists_def
        savePDF_v2_present [where header = cv_pdf] savePDF_v2_missing respondJSON_def
        start_date_of_v2_def new_row_def)
qed

text \<open>
  C10: for every apply submission that omits the cv file part, the intake does not
  answer BadRequest on that account (where it answers 400, it does so with a cv too).
  In the newest variant a submission that passes the e-mail checks gets 500
  "Failed to save CV" and nothing is stored; in no case is a row inserted. In the
  original variant \<^verbatim>\<open>savePDF\<close> gives the empty path and no error, and a submission
  with a subject is stored (201) with the empty string as cv_file_path.
\<close>

theorem applyHandler_cv_omitted:
  assumes "form_files r ''cv'' = None"
  shows "(Method r = MethodPost \<and> \<not> form_err r \<and> FormValue r ''email'' \<noteq> '''' \<and>
          \<not> exists_err e \<and> \<not> email_exists s (FormValue r ''email'') \<longrightarrow>
            applyHandler e r s = (respondError ''Failed to save CV'' 500, s)) \<and>
         applications (snd (applyHandler e r s)) = applications s \<and>
         (status (fst (applyHandler e r s)) = 400 \<longrightarrow>
            status (fst (applyHandler e (r\<lparr>form_files := (form_files r)(''cv'' \<mapsto> u)\<rparr>) s)) = 400) \<and>
         (status (fst (applyHandler_v1 e r t)) = 400 \<longrightarrow>
            status (fst (applyHandler_v1 e (r\<lparr>form_files := (form_files r)(''cv'' \<mapsto> u)\<rparr>) t)) = 400) \<and>
         (Method r = MethodPost \<and> \<not> form_err r \<and> Form r ''subjects'' \<noteq> [] \<and> \<not> insert_err e \<longrightarrow>
            status (fst (applyHandler_v1 e r t)) = 201 \<and>
            map cv_file_path (inserted t (snd (applyHandler_v1 e r t))) = [''''])"
proof (intro conjI)
  show "Method r = MethodPost \<and> \<not> form_err r \<and> FormValue r ''email'' \<noteq> '''' \<and>
          \<not> exists_err e \<and> \<not> email_exists s (FormValue r ''email'') \<longrightarrow>
            applyHandler e r s = (respondError ''Failed to save CV'' 500, s)"
    by (simp add: applyHandler_def savePDF_missing [OF assms])
  show "applications (snd (applyHandler e r s)) = applications s"
    by (simp add: applyHandler_def savePDF_missing [OF assms])
  show "status (fst (applyHandler e r s)) = 400 \<longrightarrow>
          status (fst (applyHandler e (r\<lparr>form_files := (form_files r)(''cv'' \<mapsto> u)\<rparr>) s)) = 400"
    by (simp add: applyHandler_def savePDF_missing [OF assms] FormValue_def respondError_def)
  show "status (fst (applyHandler_v1 e r t)) = 400 \<longrightarrow>
          status (fst (applyHandler_v1 e (r\<lparr>form_files := (form_files r)(''cv'' \<mapsto> u)\<rparr>) t)) = 400"
    using assms
    by (simp add: applyHandler_v1_def savePDF_v1_def Form_def respondError_def respondJSON_def
        split: prod.split)
  show "Method r = MethodPost \<and> \<not> form_err r \<and> Form r ''subjects'' \<noteq> [] \<and> \<not> insert_err e \<longrightarrow>
          status (fst (applyHandler_v1 e r t)) = 201 \<and>
          map cv_file_path (inserted t (snd (applyHandler_v1 e r t))) = ['''']"
    using assms
    by (simp add: applyHandler_v1_def savePDF_v1_def respondJSON_def inserted_def new_row_def
        split: prod.split)
qed

theorem applyHandler_cv_omitted_witness:
  "form_files no_cv_request ''cv'' = None \<and>
   applyHandler env0 no_cv_request state0 = (respondError ''Failed to save CV'' 500, state0) \<and>
   status (fst (applyHandler_v1 env0 no_cv_request state0_v1)) = 201 \<and>
   map cv_file_path (inserted state0_v1 (snd (applyHandler_v1 env0 no_cv_request state0_v1))) = ['''']"
proof -
  have none: "form_files no_cv_request ''cv'' = None"
    by (simp add: no_cv_request_def)
  have req: "Method no_cv_request = MethodPost" "\<not> form_err no_cv_request"
    "FormValue no_cv_request ''email'' = ''a@b.com''"
    "Form no_cv_request ''subjects'' = [''Data Science'']"
    by (simp_all add: no_cv_request_def apply_request_def request0_def FormValue_def Form_def)
  have fresh: "\<not> email_exists state0 ''a@b.com''"
    by (simp add: email_exists_def state0_values)
  from applyHandler_cv_omitted [OF none, of env0 state0 cv_pdf state0_v1] none req fresh
  show ?thesis by (simp add: env0_values)
qed

text \<open>
  C3 fails on the code. The newest intake handler never looks at the content type: a cv
  of type text/plain is stored and the submission answered 201. The original handler
  checks the type in \<^verbatim>\<open>savePDF\<close> but drops the error of the motivation call: a
  motivation letter of type text/plain is answered 201 as well.
\<close>

theorem applyHandler_accepts_non_pdf:
  "content_type notes_txt \<noteq> ''application/pdf'' \<and>
   form_files text_cv_request ''cv'' = Some notes_txt \<and>
   fst (applyHandler env0 text_cv_request state0) = respondJSON (Json_id 1) 201 \<and>
   files (snd (applyHandler env0 text_cv_request state0)) ''uploads/7_notes.txt'' = Some [104, 105] \<and>
   form_files text_motivation_request ''motivation'' = Some notes_txt \<and>
   fst (applyHandler_v1 env0 text_motivation_request state0_v1) = respondJSON (Json_id 1) 201"
proof -
  have req: "Method text_cv_request = MethodPost" "\<not> form_err text_cv_request"
    "FormValue text_cv_request ''email'' = ''a@b.com''"
    "form_files text_cv_request ''cv'' = Some notes_txt"
    "form_files text_cv_request ''motivation'' = None"
    by (simp_all add: text_cv_request_def apply_request_def request0_def FormValue_def)
  have req1: "Method text_motivation_request = MethodPost" "\<not> form_err text_motivation_request"
    "Form text_motivation_request ''subjects'' = [''Data Science'']"
    "form_files text_motivation_request ''cv'' = Some cv_pdf"
    "form_files text_motivation_request ''motivation'' = Some notes_txt"
    by (simp_all add: text_motivation_request_def apply_request_def request0_def Form_def)
  have path: "upload_path 7 (filename notes_txt) = ''uploads/7_notes.txt''"
    by (simp add: upload_path_def notes_txt_def)
  have newest: "fst (applyHandler env0 text_cv_request state0) = respondJSON (Json_id 1) 201"
    "files (snd (applyHandler env0 text_cv_request state0)) ''uploads/7_notes.txt'' = Some [104, 105]"
    by (simp_all add: applyHandler_def req env0_values state0_values email_exists_def
        savePDF_present [where header = notes_txt] savePDF_missing path)
      (simp add: notes_txt_def)
  have original: "fst (applyHandler_v1 env0 text_motivation_request state0_v1) = respondJSON (Json_id 1) 201"
    by (simp add: applyHandler_v1_def req1 savePDF_v1_def env0_values notes_txt_def cv_pdf_def
        Let_def)
  show ?thesis using newest original req(4) req1(5) by (simp add: notes_txt_def)
qed

text \<open>What does hold: the original handler rejects a cv that is not a PDF.\<close>

lemma applyHandler_v1_cv_not_pdf:
  assumes "Method r = MethodPost" and "\<not> form_err r" and "Form r ''subjects'' \<noteq> []"
    and "form_files r ''cv'' = Some header" and "content_type header \<noteq> ''application/pdf''"
  shows "applyHandler_v1 e r s = (\<lparr>status = 400, body = Error_of_save (Not_PDF ''cv'')\<rparr>, s)"
  using assms by (simp add: applyHandler_v1_def savePDF_v1_def)

text \<open>
  And a submission without the motivation letter that passes the checks of the newest
  handler and meets no storage failure is stored and answered 201.
\<close>

lemma applyHandler_motivation_omitted:
  assumes "Method r = MethodPost" and "\<not> form_err r" and "FormValue r ''email'' \<noteq> ''''"
    and "\<not> exists_err e" and "\<not> email_exists s (FormValue r ''email'')"
    and "form_files r ''cv'' = Some header" and "save_fault e ''cv'' = None"
    and "form_files r ''motivation'' = None" and "\<not> insert_err e"
  shows "fst (applyHandler e r s) = respondJSON (Json_id (new_id e)) 201 \<and>
         map motivation_file_path (inserted s (snd (applyHandler e r s))) = ['''']"
  using assms
  by (simp add: applyHandler_def savePDF_present savePDF_missing path_of_def inserted_def
      new_row_def)

text \<open>
  C4 fails on the newest intake handler, which has no check of the subjects: a
  submission without subjects is stored, its file written, and it is answered 201.
\<close>

theorem applyHandler_accepts_zero_subjects:
  "Form no_subject_request ''subjects'' = [] \<and>
   fst (applyHandler env0 no_subject_request state0) = respondJSON (Json_id 1) 201 \<and>
   map email (applications (snd (applyHandler env0 no_subject_request state0))) = [''a@b.com''] \<and>
   files (snd (applyHandler env0 no_subject_request state0)) ''uploads/7_cv.pdf''
     = Some [37, 80, 68, 70]"
proof -
  have req: "Method no_subject_request = MethodPost" "\<not> form_err no_subject_request"
    "FormValue no_subject_request ''email'' = ''a@b.com''"
    "Form no_subject_request ''subjects'' = []"
    "form_files no_subject_request ''cv'' = Some cv_pdf"
    "form_files no_subject_request ''motivation'' = None"
    by (simp_all add: no_subject_request_def apply_request_def request0_def FormValue_def Form_def)
  show ?thesis
    by (simp add: applyHandler_def req env0_values state0_values email_exists_def
        savePDF_present [where header = cv_pdf] savePDF_missing cv_pdf_path new_row_def)
      (simp add: cv_pdf_def)
qed

text \<open>
  Where the check is: for every apply submission with zero subjects selected, the
  original intake handler fails with BadRequest (400) and persists nothing, and the
  form validation of the page refuses to send the form. The response of the newest
  intake handler is the one it gives to the same submission with subjects, and it
  inserts no join row.
\<close>

lemma zero_subjects:
  assumes "Form r ''subjects'' = []"
  shows "(Method r = MethodPost \<and> \<not> form_err r \<longrightarrow>
            applyHandler_v1 e r t = (respondError ''At least one subject is required'' 400, t)) \<and>
         fst (applyHandler e r s)
           = fst (applyHandler e (r\<lparr>form := (form r)(''subjects'' \<mapsto> names)\<rparr>) s) \<and>
         application_subjects (snd (applyHandler e r s)) = application_subjects s \<and>
         (fd_subjects fd = [] \<longrightarrow> validateForm fd \<noteq> None)"
proof (intro conjI)
  show "Method r = MethodPost \<and> \<not> form_err r \<longrightarrow>
          applyHandler_v1 e r t = (respondError ''At least one subject is required'' 400, t)"
    using assms by (simp add: applyHandler_v1_def)
  show "fst (applyHandler e r s)
          = fst (applyHandler e (r\<lparr>form := (form r)(''subjects'' \<mapsto> names)\<rparr>) s)"
    by (simp add: applyHandler_def FormValue_other split: prod.split sum.split)
  show "application_subjects (snd (applyHandler e r s)) = application_subjects s"
    using assms by (simp add: applyHandler_def split: prod.split sum.split)
  show "fd_subjects fd = [] \<longrightarrow> validateForm fd \<noteq> None"
    by (simp add: validateForm_def Let_def split: option.split bool.split)
qed

lemma zero_subjects_example:
  "Form no_subject_request ''subjects'' = [] \<and>
   applyHandler_v1 env0 no_subject_request state0_v1
     = (respondError ''At least one subject is required'' 400, state0_v1) \<and>
   fst (applyHandler env0 no_subject_request state0) = respondJSON (Json_id 1) 201 \<and>
   application_subjects (snd (applyHandler env0 no_subject_request state0)) = []"
proof -
  have none: "Form no_subject_request ''subjects'' = []"
    by (simp add: no_subject_request_def Form_def)
  have req: "Method no_subject_request = MethodPost" "\<not> form_err no_subject_request"
    by (simp_all add: no_subject_request_def apply_request_def request0_def)
  have again: "no_subject_request\<lparr>form := (form no_subject_request)(''subjects'' \<mapsto> [''Data Science''])\<rparr>
      = apply_request"
    by (simp add: no_subject_request_def apply_request_def request0_def fun_upd_twist)
  from zero_subjects [OF none, of env0 state0_v1 state0 "[''Data Science'']"] req
  show ?thesis by (simp add: none again state1_intake state0_values)
qed

text \<open>
  C5, as stated, fails on the intake handler: a phone of three digits is stored and the
  submission answered 201.
\<close>

theorem applyHandler_phone_counterexample:
  "length (phoneDigits (FormValue short_phone_request ''phone'')) = 3 \<and>
   fst (applyHandler env0 short_phone_request state0) = respondJSON (Json_id 1) 201 \<and>
   map phone (applications (snd (applyHandler env0 short_phone_request state0))) = [''123'']"
proof -
  have req: "Method short_phone_request = MethodPost" "\<not> form_err short_phone_request"
    "FormValue short_phone_request ''email'' = ''a@b.com''"
    "FormValue short_phone_request ''phone'' = ''123''"
    "form_files short_phone_request ''cv'' = Some cv_pdf"
    "form_files short_phone_request ''motivation'' = None"
    by (simp_all add: short_phone_request_def apply_request_def request0_def FormValue_def)
  show ?thesis
    by (simp add: applyHandler_def req env0_values state0_values email_exists_def
        savePDF_present [where header = cv_pdf] savePDF_missing new_row_def
        phoneDigits_def is_digit_def)
qed

text \<open>
  C5 (amended): for every phone input, the form validation of the page lets the
  submission through only if the phone normalizes to exactly 8 digits after stripping all
  non-digit characters; any other phone is refused with the phone alert and nothing is
  sent. The intake handler does not check the phone: its response does not depend on it.
\<close>

theorem phone_validation:
  "(validateForm fd = None \<longrightarrow> length (phoneDigits (or_empty (fd_phone fd))) = 8) \<and>
   (length (phoneDigits (or_empty (fd_phone fd))) \<noteq> 8 \<longrightarrow> validateForm fd = Some Phone_alert) \<and>
   fst (applyHandler e (r\<lparr>form := (form r)(''phone'' := x)\<rparr>) s) = fst (applyHandler e r s)"
proof (intro conjI)
  show "validateForm fd = None \<longrightarrow> length (phoneDigits (or_empty (fd_phone fd))) = 8"
    by (simp add: validateForm_def Let_def split: if_splits)
  show "length (phoneDigits (or_empty (fd_phone fd))) \<noteq> 8 \<longrightarrow> validateForm fd = Some Phone_alert"
    by (simp add: validateForm_def Let_def)
  show "fst (applyHandler e (r\<lparr>form := (form r)(''phone'' := x)\<rparr>) s) = fst (applyHandler e r s)"
    by (simp add: applyHandler_def FormValue_other split: prod.split sum.split)
qed

theorem phone_validation_witness:
  "validateForm page_form = None \<and>
   length (phoneDigits (or_empty (fd_phone page_form))) = 8 \<and>
   length (phoneDigits (or_empty (fd_phone (page_form\<lparr>fd_phone := Some ''123''\<rparr>)))) \<noteq> 8 \<and>
   validateForm (page_form\<lparr>fd_phone := Some ''123''\<rparr>) = Some Phone_alert \<and>
   fst (applyHandler env0 short_phone_request state0) = respondJSON (Json_id 1) 201"
proof -
  have ok: "validateForm page_form = None"
    by (simp add: validateForm_def page_form_def or_empty_def phoneDigits_def is_digit_def
        indexOf_def lastIndexOf_def)
  have short: "length (phoneDigits (or_empty (fd_phone (page_form\<lparr>fd_phone := Some ''123''\<rparr>)))) \<noteq> 8"
    by (simp add: or_empty_def phoneDigits_def is_digit_def)
  have eight: "length (phoneDigits (or_empty (fd_phone page_form))) = 8"
    using phone_validation [of page_form env0 apply_request None state0] ok by simp
  have refused: "validateForm (page_form\<lparr>fd_phone := Some ''123''\<rparr>) = Some Phone_alert"
    using phone_validation [of "page_form\<lparr>fd_phone := Some ''123''\<rparr>" env0 apply_request None state0]
      short by simp
  have "fst (applyHandler env0 short_phone_request state0) = fst (applyHandler env0 apply_request state0)"
    using phone_validation [of page_form env0 apply_request "Some [''123'']" state0]
    by (simp add: short_phone_request_def)
  then have "fst (applyHandler env0 short_phone_request state0) = respondJSON (Json_id 1) 201"
    by (simp add: state1_intake)
  with ok short eight refused show ?thesis by simp
qed

section \<open>Subject registry: theorems\<close>

lemma set_subjects_in_use: "set (subjects_in_use s ids) = {i \<in> set ids. referenced s i}"
  by (auto simp: subjects_in_use_def referenced_def)

lemma filter_requested:
  "filter (\<lambda>i. i \<in> set ids \<longrightarrow> P i) ids = filter P ids"
  by (rule filter_cong) simp_all

lemma deleteSubjects_joins [simp]:
  "application_subjects (snd (deleteSubjects e r s)) = application_subjects s"
  by (simp add: deleteSubjects_def Let_def split: option.split)

lemma deleteSubjects_subjects:
  "set (subjects (snd (deleteSubjects e r s))) \<subseteq> set (subjects s) \<and>
   (\<forall>sub \<in> set (subjects s). referenced s (fst sub) \<longrightarrow>
      sub \<in> set (subjects (snd (deleteSubjects e r s))))"
  by (auto simp: deleteSubjects_def Let_def set_subjects_in_use split: option.split)

text \<open>
  The newest batch delete partitions the ids. For every batch subject-delete request
  with a non-empty list of ids that meets no database failure, the response (200) reports under deleted exactly the requested ids
  that no application references and under in_use exactly the requested ids that some
  application references; the subject rows of the former are removed, every other
  subject row survives, and the join rows are untouched. Whatever the request and the
  failures, the handler leaves the join rows as they are and removes no subject row
  that an application references.
\<close>

lemma deleteSubjects_partition:
  "(Method r = MethodDelete \<and> body_ids r = Some ids \<and> ids \<noteq> [] \<and> \<not> usage_query_err e \<and>
    \<not> begin_err e \<and> \<not> exec_err e \<and> \<not> commit_err e \<longrightarrow>
      fst (deleteSubjects e r s)
        = respondJSON (Json_deleted (filter (\<lambda>i. \<not> referenced s i) ids)
                         {i \<in> set ids. referenced s i}) 200 \<and>
      subjects (snd (deleteSubjects e r s))
        = filter (\<lambda>sub. fst sub \<in> set ids \<longrightarrow> referenced s (fst sub)) (subjects s)) \<and>
   application_subjects (snd (deleteSubjects e r s)) = application_subjects s \<and>
   (\<forall>sub \<in> set (subjects s). referenced s (fst sub) \<longrightarrow>
      sub \<in> set (subjects (snd (deleteSubjects e r s))))"
proof (intro conjI impI)
  assume ok: "Method r = MethodDelete \<and> body_ids r = Some ids \<and> ids \<noteq> [] \<and> \<not> usage_query_err e \<and>
    \<not> begin_err e \<and> \<not> exec_err e \<and> \<not> commit_err e"
  then show "fst (deleteSubjects e r s)
        = respondJSON (Json_deleted (filter (\<lambda>i. \<not> referenced s i) ids)
                         {i \<in> set ids. referenced s i}) 200"
    by (simp add: deleteSubjects_def Let_def mapKeys_def set_subjects_in_use filter_requested)
  have "filter (\<lambda>sub. fst sub \<in> set ids \<longrightarrow> fst sub \<in> set (subjects_in_use s ids)) (subjects s)
      = filter (\<lambda>sub. fst sub \<in> set ids \<longrightarrow> referenced s (fst sub)) (subjects s)"
    by (rule filter_cong) (auto simp: set_subjects_in_use)
  with ok show "subjects (snd (deleteSubjects e r s))
        = filter (\<lambda>sub. fst sub \<in> set ids \<longrightarrow> referenced s (fst sub)) (subjects s)"
    by (simp add: deleteSubjects_def Let_def)
next
  show "application_subjects (snd (deleteSubjects e r s)) = application_subjects s"
    by simp
  show "\<forall>sub \<in> set (subjects s). referenced s (fst sub) \<longrightarrow>
      sub \<in> set (subjects (snd (deleteSubjects e r s)))"
    using deleteSubjects_subjects by blast
qed

lemma deleteSubjects_partition_example:
  "referenced state1 1 \<and> \<not> referenced state1 2 \<and>
   fst (deleteSubjects delete_env0 delete_request state1) = respondJSON (Json_deleted [2] {1}) 200 \<and>
   subjects (snd (deleteSubjects delete_env0 delete_request state1)) = [(1, ''Data Science'')] \<and>
   application_subjects (snd (deleteSubjects delete_env0 delete_request state1)) = [(1, 1)]"
proof -
  have refs: "referenced state1 1" "\<not> referenced state1 2"
    by (simp_all add: referenced_def state1_def)
  have req: "Method delete_request = MethodDelete" "body_ids delete_request = Some [1, 2]"
    by (simp_all add: delete_request_def request0_def)
  have env: "\<not> usage_query_err delete_env0" "\<not> begin_err delete_env0"
    "\<not> exec_err delete_env0" "\<not> commit_err delete_env0"
    by (simp_all add: delete_env0_def)
  have in_use: "{i. (i = 1 \<or> i = 2) \<and> referenced state1 i} = {1}"
    using refs by auto
  have tables: "subjects state1 = [(1, ''Data Science''), (2, ''Web'')]"
    "application_subjects state1 = [(1, 1)]"
    by (simp_all add: state1_def)
  from deleteSubjects_partition [of delete_request "[1, 2]" delete_env0 state1] req env
  show ?thesis by (simp add: refs in_use tables)
qed

text \<open>
  C6 fails on the second variant of the batch delete, which has no check of the join
  table: subject 1, referenced by application 1, is removed together with its join row,
  and the response reports neither list.
\<close>

theorem deleteSubjects_v2_removes_referenced:
  "body_ids delete_request = Some [1, 2] \<and> referenced state1 1 \<and>
   fst (deleteSubjects_v2 delete_env0 delete_request state1) = \<lparr>status = 200, body = Json_success\<rparr> \<and>
   subjects (snd (deleteSubjects_v2 delete_env0 delete_request state1)) = [] \<and>
   application_subjects (snd (deleteSubjects_v2 delete_env0 delete_request state1)) = []"
  by (simp add: deleteSubjects_v2_def referenced_def state1_def delete_request_def
      request0_def delete_env0_def)

section \<open>Application query: theorems\<close>

lemma subject_id_by_name_Some:
  "subject_id_by_name subs n = Some i \<Longrightarrow> (i, n) \<in> set subs"
  by (induction subs) (auto simp: subject_id_by_name_def split: if_splits)

lemma subject_id_by_name_known:
  "n \<in> snd ` set subs \<Longrightarrow> \<exists>i. subject_id_by_name subs n = Some i"
  by (cases "find (\<lambda>row. snd row = n) subs") (auto simp: subject_id_by_name_def find_None_iff)

lemma link_subjects_joins:
  assumes "\<forall>k. \<not> lookup_err e k" and "\<forall>k. \<not> join_err e k"
  shows "application_subjects (link_subjects e a i ns s)
           = application_subjects s
             @ map (Pair a) (List.map_filter (subject_id_by_name (subjects s)) ns)"
  using assms
  by (induction ns arbitrary: i s) (auto simp: map_filter_simps split: option.splits)

lemma set_map_filter:
  "set (List.map_filter f xs) = {y. \<exists>x \<in> set xs. f x = Some y}"
  by (induction xs) (auto split: option.splits)

lemma set_subject_names:
  "set (subject_names s a)
     = {snd sub | sub. sub \<in> set (subjects s) \<and> (a, fst sub) \<in> set (application_subjects s)}"
  by (force simp: subject_names_def)

lemma linked_names:
  assumes "distinct (map fst subs)"
  shows "{snd sub | sub. sub \<in> set subs \<and> fst sub \<in> set (List.map_filter (subject_id_by_name subs) ns)}
           = {n \<in> set ns. n \<in> snd ` set subs}"
proof (intro set_eqI iffI)
  fix x
  assume "x \<in> {snd sub | sub. sub \<in> set subs
                 \<and> fst sub \<in> set (List.map_filter (subject_id_by_name subs) ns)}"
  then obtain sub n where sub: "sub \<in> set subs" "x = snd sub"
    and n: "n \<in> set ns" "subject_id_by_name subs n = Some (fst sub)"
    by (auto simp: set_map_filter)
  from n(2) have "(fst sub, n) \<in> set subs" by (rule subject_id_by_name_Some)
  with assms sub(1) have "sub = (fst sub, n)"
    by (metis eq_key_imp_eq_value prod.collapse)
  then have "snd sub = n" by (metis snd_conv)
  with sub n(1) show "x \<in> {n \<in> set ns. n \<in> snd ` set subs}" by auto
next
  fix x
  assume "x \<in> {n \<in> set ns. n \<in> snd ` set subs}"
  then have x: "x \<in> set ns" "x \<in> snd ` set subs" by auto
  from x(2) obtain i where i: "subject_id_by_name subs x = Some i"
    using subject_id_by_name_known by blast
  then have "(i, x) \<in> set subs" by (rule subject_id_by_name_Some)
  moreover from x(1) i have "i \<in> set (List.map_filter (subject_id_by_name subs) ns)"
    by (auto simp: set_map_filter)
  ultimately show "x \<in> {snd sub | sub. sub \<in> set subs
                 \<and> fst sub \<in> set (List.map_filter (subject_id_by_name subs) ns)}"
    by force
qed

lemma descending: "sorted (map uminus ys) \<Longrightarrow> sorted (rev (ys :: int list))"
  by (simp add: sorted_wrt_rev sorted_wrt_map)

lemma listApplications_rows:
  "\<not> list_query_err le \<Longrightarrow>
   applications_of (fst (listApplications le q t))
     = map (\<lambda>a. to_response a
                 (if sub_query_err le (app_id a) then [] else subject_names t (app_id a)))
         (order_by_created_at_desc (applications t))"
  by (simp add: listApplications_def applications_of_def respondJSON_def)

lemma intake_subjects [simp]: "subjects (snd (applyHandler e r s)) = subjects s"
  by (simp add: applyHandler_def split: prod.split sum.split)

lemma intake_joins:
  assumes "status (fst (applyHandler e r s)) = 201"
    and "\<forall>k. \<not> lookup_err e k" and "\<forall>k. \<not> join_err e k"
  shows "application_subjects (snd (applyHandler e r s))
           = application_subjects s
             @ map (Pair (new_id e))
                 (List.map_filter (subject_id_by_name (subjects s)) (Form r ''subjects''))"
  using assms(1)
  by (auto simp: applyHandler_def respondError_def link_subjects_joins [OF assms(2,3)]
      split: if_splits prod.splits sum.splits)

lemma intake_listed:
  assumes "status (fst (applyHandler e r s)) = 201"
  shows "new_id e \<in> app_id ` set (applications (snd (applyHandler e r s)))"
  using assms
  by (auto simp: applyHandler_def respondError_def new_row_def
      split: if_splits prod.splits sum.splits)

lemma link_subjects_other:
  "b \<noteq> a \<Longrightarrow>
   (b, x) \<in> set (application_subjects (link_subjects e a i ns s))
     \<longleftrightarrow> (b, x) \<in> set (application_subjects s)"
  by (induction ns arbitrary: i s) (auto split: option.splits)

lemma intake_other:
  "b \<noteq> new_id e \<Longrightarrow>
   (b, x) \<in> set (application_subjects (snd (applyHandler e r s)))
     \<longleftrightarrow> (b, x) \<in> set (application_subjects s)"
  by (simp add: applyHandler_def link_subjects_other split: prod.split sum.split)

lemma subject_names_after_intake:
  "b \<noteq> new_id e \<Longrightarrow>
   set (subject_names (snd (applyHandler e r s)) b) = set (subject_names s b)"
  by (simp add: set_subject_names intake_other)

lemma subject_names_after_delete:
  "set (subject_names (snd (deleteSubjects d q s)) b) = set (subject_names s b)"
proof -
  have "sub \<in> set (subjects (snd (deleteSubjects d q s))) \<longleftrightarrow> sub \<in> set (subjects s)"
    if "(b, fst sub) \<in> set (application_subjects s)" for sub
  proof -
    from that have "referenced s (fst sub)"
      by (force simp: referenced_def)
    then show ?thesis using deleteSubjects_subjects [of d q s] by blast
  qed
  then show ?thesis unfolding set_subject_names deleteSubjects_joins by blast
qed




section \<open>File delivery: theorems\<close>

lemma split_on_nonempty [simp]: "split_on f v \<noteq> []"
  by (induction v) (auto split: list.splits)

lemma split_on_Cons:
  "split_on f (c # cs) =
     (if f c then [] # split_on f cs else (c # hd (split_on f cs)) # tl (split_on f cs))"
  by (cases "split_on f cs") simp_all

lemma in_split_on: "e \<in> set (split_on f v) \<longleftrightarrow> hd (split_on f v) = e \<or> e \<in> set (tl (split_on f v))"
  by (cases "split_on f v") auto

lemma split_on_refine:
  assumes "\<forall>c. f c \<longrightarrow> g c"
  shows "(\<forall>c \<in> set e. \<not> g c) \<Longrightarrow>
         (e \<in> set (tl (split_on f v)) \<longrightarrow> e \<in> set (tl (split_on g v))) \<and>
         (hd (split_on f v) = e \<longrightarrow> hd (split_on g v) = e)"
proof (induction v arbitrary: e)
  case Nil
  then show ?case by simp
next
  case (Cons c cs)
  show ?case
  proof (cases "f c")
    case True
    with assms have "g c" by simp
    with True Cons show ?thesis by (auto simp: in_split_on)
  next
    case False
    show ?thesis
    proof (cases "g c")
      case True
      with False Cons show ?thesis
        by (auto simp: in_split_on split_on_Cons simp del: split_on.simps)
    next
      case nog: False
      have "hd (split_on g cs) = tl e" if "c # hd (split_on f cs) = e"
      proof -
        from that have "hd (split_on f cs) = tl e" by auto
        moreover from Cons.prems that have "\<forall>c \<in> set (tl e). \<not> g c" by auto
        ultimately show ?thesis using Cons.IH [of "tl e"] by simp
      qed
      with False nog Cons show ?thesis
        by (auto simp: split_on_Cons simp del: split_on.simps)
    qed
  qed
qed

lemma split_on_coarser:
  assumes "\<forall>c. f c \<longrightarrow> g c" and "\<forall>c \<in> set e. \<not> g c" and "e \<in> set (split_on f v)"
  shows "e \<in> set (split_on g v)"
  using split_on_refine [OF assms(1,2), of v] assms(3) by (auto simp: in_split_on)

lemma resolve_no_dotdot:
  "''..'' \<notin> set cs \<Longrightarrow>
   resolve stack cs = Some (rev stack @ filter (\<lambda>c. c \<noteq> '''' \<and> c \<noteq> ''.'') cs)"
  by (induction cs arbitrary: stack) auto

lemma split_uploads:
  "split_on (\<lambda>c. c = CHR ''/'') (''uploads/'' @ rest) = ''uploads'' # split_on (\<lambda>c. c = CHR ''/'') rest"
  by simp

lemma routed_inside:
  assumes "take 9 p = ''/uploads/''" and "\<not> containsDotDot p"
  shows "\<not> outside_upload_root (drop 1 p)"
proof -
  from assms(1) have p: "p = ''/uploads/'' @ drop 9 p"
    by (metis append_take_drop_id)
  then have name: "drop 1 p = ''uploads/'' @ drop 9 p"
    by (metis append_Cons drop0 drop_Suc_Cons One_nat_def)
  have "''..'' \<notin> set (split_on isSlashRune p)"
    using assms(2) by (simp add: containsDotDot_def FieldsFunc_def)
  moreover have "split_on isSlashRune p = [] # split_on isSlashRune (drop 1 p)"
    by (subst p, subst name) (simp add: isSlashRune_def)
  ultimately have "''..'' \<notin> set (split_on isSlashRune (drop 1 p))" by simp
  then have "''..'' \<notin> set (split_on (\<lambda>c. c = CHR ''/'') (drop 1 p))"
    using split_on_coarser [of "\<lambda>c. c = CHR ''/''" isSlashRune "''..''" "drop 1 p"]
    by (auto simp: isSlashRune_def)
  then have "''..'' \<notin> set (split_on (\<lambda>c. c = CHR ''/'') (''uploads/'' @ drop 9 p))"
    by (metis name)
  then have "''..'' \<notin> set (split_on (\<lambda>c. c = CHR ''/'') (drop 9 p))"
    by simp
  then have "\<not> outside_upload_root (''uploads/'' @ drop 9 p)"
    by (simp add: outside_upload_root_def resolve_no_dotdot)
  then show ?thesis by (metis name)
qed

lemma routed_name:
  assumes "under_uploads_route r"
  shows "URL_Path r \<noteq> []" and "drop 1 (URL_Path r) = ''uploads/'' @ drop 9 (URL_Path r)"
proof -
  from assms have p: "URL_Path r = ''/uploads/'' @ drop 9 (URL_Path r)"
    unfolding under_uploads_route_def by (metis append_take_drop_id)
  then show "URL_Path r \<noteq> []" by auto
  from p show "drop 1 (URL_Path r) = ''uploads/'' @ drop 9 (URL_Path r)"
    by (metis append_Cons drop0 drop_Suc_Cons One_nat_def)
qed

lemma serveFile_routed:
  assumes "Method r = MethodGet" and "under_uploads_route r"
  shows "serveFile r s = (ServeFile (files s) (URL_Path r) (drop 1 (URL_Path r)), s)"
proof -
  have "drop 1 (URL_Path r) \<noteq> []" "hd (drop 1 (URL_Path r)) = CHR ''u''"
    by (simp_all only: routed_name(2) [OF assms(2)]) simp_all
  with assms(1) routed_name(1) [OF assms(2)] show ?thesis
    by (simp add: serveFile_def Let_def)
qed



text \<open>
  The second variant has no guard of its own; under the upload route it hands every
  path to the library, which rejects the ones that climb.
\<close>

lemma serveFile_v2_routed:
  assumes "Method r \<noteq> MethodOptions" and "under_uploads_route r"
    and "outside_upload_root (drop 1 (URL_Path r))"
  shows "serveFile_v2 r s = (respondError ''invalid URL path'' 400, s)"
proof -
  from assms(2,3) have "containsDotDot (URL_Path r)"
    using routed_inside [of "URL_Path r"] by (auto simp: under_uploads_route_def)
  with assms(1) routed_name(1) [OF assms(2)] show ?thesis
    by (simp add: serveFile_v2_def ServeFile_def)
qed

end
